theory Spec2Isabelle
  imports Complex_Main "HOL-Library.Sublist"
begin

chapter \<open>Eco Agent: message-context management and retrieval endpoint\<close>

text \<open>
  A shallow embedding of the chat request handler's message pipeline
  (\<^verbatim>\<open>estimateMessageTokens\<close>, \<^verbatim>\<open>trimMessages\<close>, \<^verbatim>\<open>stripResponseMetadata\<close>,
  \<^verbatim>\<open>countToolCalls\<close>, \<^verbatim>\<open>summarizeOlderMessages\<close>, the reload of stored messages, the
  two persistence paths), of the retrieval endpoint \<^verbatim>\<open>POST /api/eco-rag\<close> and of the tools
  \<^verbatim>\<open>generateImage\<close> and \<^verbatim>\<open>olympiaRAGSearch\<close>, followed by the properties proved of them.
\<close>

section \<open>JavaScript values\<close>

text \<open>
  Message parts, request bodies and tool results are untyped JSON-like values in the
  source (\<^verbatim>\<open>any\<close>). \<open>JUndefined\<close> is JavaScript's \<^verbatim>\<open>undefined\<close>, which an object can hold
  in memory (\<^verbatim>\<open>imageData: undefined\<close>) although JSON text cannot. Numbers are the
  integer-valued ones. An object is the list of its own properties in insertion order;
  a JavaScript object holds a key at most once. Strings are \<open>string\<close>: one \<open>char\<close> per
  code unit for ASCII text; the few non-ASCII characters of the source's literals are
  written as their UTF-8 bytes.
\<close>

datatype json =
    JUndefined
  | JNull
  | JBool bool
  | JNum int
  | JStr string
  | JArr "json list"
  | JObj "(string \<times> json) list"

text \<open>\<^verbatim>\<open>if (v)\<close>, \<^verbatim>\<open>!v\<close>, \<^verbatim>\<open>a || b\<close>: JavaScript truthiness.\<close>

fun truthy :: "json \<Rightarrow> bool" where
  "truthy JUndefined = False"
| "truthy JNull = False"
| "truthy (JBool b) = b"
| "truthy (JNum n) = (n \<noteq> 0)"
| "truthy (JStr s) = (s \<noteq> [])"
| "truthy (JArr xs) = True"
| "truthy (JObj fs) = True"

definition js_or :: "json \<Rightarrow> json \<Rightarrow> json" where
  "js_or a b = (if truthy a then a else b)"

text \<open>\<^verbatim>\<open>typeof v === 'object'\<close> holds of objects, arrays and \<^verbatim>\<open>null\<close>.\<close>

fun typeof_object :: "json \<Rightarrow> bool" where
  "typeof_object JNull = True"
| "typeof_object (JArr xs) = True"
| "typeof_object (JObj fs) = True"
| "typeof_object v = False"

text \<open>\<^verbatim>\<open>part && typeof part === 'object'\<close>.\<close>

definition is_object :: "json \<Rightarrow> bool" where
  "is_object v = (truthy v \<and> typeof_object v)"

text \<open>\<^verbatim>\<open>v !== undefined && v !== null\<close>.\<close>

definition non_nullish :: "json \<Rightarrow> bool" where
  "non_nullish v = (v \<noteq> JUndefined \<and> v \<noteq> JNull)"

text \<open>
  Property read \<^verbatim>\<open>v.key\<close> / \<^verbatim>\<open>v?.key\<close> for the property names the source reads
  (\<^verbatim>\<open>type\<close>, \<^verbatim>\<open>text\<close>, \<^verbatim>\<open>result\<close>, \<^verbatim>\<open>output\<close>, \<^verbatim>\<open>imageData\<close>, ...): a missing property, and
  any such property of a string, number, boolean or array, reads as \<^verbatim>\<open>undefined\<close>. With
  optional chaining \<^verbatim>\<open>null\<close> and \<^verbatim>\<open>undefined\<close> read as \<^verbatim>\<open>undefined\<close> too; a plain
  \<^verbatim>\<open>v.key\<close> on them throws, which the callers below model where it can happen.
\<close>

fun get :: "json \<Rightarrow> string \<Rightarrow> json" where
  "get (JObj fs) key = (case map_of fs key of Some v \<Rightarrow> v | None \<Rightarrow> JUndefined)"
| "get v key = JUndefined"

text \<open>
  \<^verbatim>\<open>{ ...obj, key: v }\<close>: the property keeps its position when \<^verbatim>\<open>obj\<close> has it and is
  appended otherwise.
\<close>

fun set_field :: "(string \<times> json) list \<Rightarrow> string \<Rightarrow> json \<Rightarrow> (string \<times> json) list" where
  "set_field [] key v = [(key, v)]"
| "set_field ((k, w) # fs) key v = (if k = key then (k, v) # fs else (k, w) # set_field fs key v)"

text \<open>The own properties copied by a spread \<^verbatim>\<open>{ ...v }\<close> of an object.\<close>

fun fields_of :: "json \<Rightarrow> (string \<times> json) list" where
  "fields_of (JObj fs) = fs"
| "fields_of v = []"

section \<open>Strings\<close>

text \<open>\<^verbatim>\<open>s.startsWith(p)\<close>, \<^verbatim>\<open>s.substring(0, n)\<close> and \<^verbatim>\<open>xs.join(sep)\<close>.\<close>

definition startsWith :: "string \<Rightarrow> string \<Rightarrow> bool" where
  "startsWith s p = (take (length p) s = p)"

definition substring0 :: "string \<Rightarrow> nat \<Rightarrow> string" where
  "substring0 s n = take n s"

fun join :: "string \<Rightarrow> string list \<Rightarrow> string" where
  "join sep [] = []"
| "join sep [x] = x"
| "join sep (x # y # ys) = x @ sep @ join sep (y # ys)"

definition newline :: string where
  "newline = [CHR 0x0A]"

text \<open>The decimal digits of an integer, as a template literal prints it.\<close>

definition digit_char :: "nat \<Rightarrow> char" where
  "digit_char d = char_of (48 + d)"

fun show_nat :: "nat \<Rightarrow> string" where
  "show_nat n = (if n < 10 then [digit_char n] else show_nat (n div 10) @ [digit_char (n mod 10)])"

declare show_nat.simps [simp del]

definition show_int :: "int \<Rightarrow> string" where
  "show_int i = (if i < 0 then CHR ''-'' # show_nat (nat (- i)) else show_nat (nat i))"

text \<open>
  \<^verbatim>\<open>String(v)\<close>, as a template literal \<^verbatim>\<open>`${v}`\<close> applies it: an array joins its elements
  with commas, \<^verbatim>\<open>null\<close> and \<^verbatim>\<open>undefined\<close> elements giving the empty string.
\<close>

fun to_string :: "json \<Rightarrow> string" where
  "to_string JUndefined = ''undefined''"
| "to_string JNull = ''null''"
| "to_string (JBool b) = (if b then ''true'' else ''false'')"
| "to_string (JNum n) = show_int n"
| "to_string (JStr s) = s"
| "to_string (JArr xs) =
     join '','' (map (\<lambda>x. if x = JUndefined \<or> x = JNull then [] else to_string x) xs)"
| "to_string (JObj fs) = ''[object Object]''"

subsection \<open>\<^verbatim>\<open>JSON.stringify\<close>\<close>

definition hex_digit :: "nat \<Rightarrow> char" where
  "hex_digit d = (if d < 10 then char_of (48 + d) else char_of (87 + d))"

text \<open>
  \<^verbatim>\<open>QuoteJSONString\<close>: the quote and the backslash are escaped, the control characters
  are written \<^verbatim>\<open>\b \t \n \f \r\<close> or \<^verbatim>\<open>\u00XX\<close>.
\<close>

definition escape_char :: "char \<Rightarrow> string" where
  "escape_char c =
     (if c = CHR 0x22 then [CHR 0x5C, CHR 0x22]
      else if c = CHR 0x5C then [CHR 0x5C, CHR 0x5C]
      else if c = CHR 0x08 then [CHR 0x5C, CHR ''b'']
      else if c = CHR 0x09 then [CHR 0x5C, CHR ''t'']
      else if c = CHR 0x0A then [CHR 0x5C, CHR ''n'']
      else if c = CHR 0x0C then [CHR 0x5C, CHR ''f'']
      else if c = CHR 0x0D then [CHR 0x5C, CHR ''r'']
      else if of_char c < (32 :: nat)
        then [CHR 0x5C, CHR ''u'', CHR ''0'', CHR ''0'',
              hex_digit (of_char c div 16), hex_digit (of_char c mod 16)]
      else [c])"

definition quote :: "string \<Rightarrow> string" where
  "quote s = CHR 0x22 # concat (map escape_char s) @ [CHR 0x22]"

text \<open>
  \<^verbatim>\<open>JSON.stringify(v)\<close> for an object, array, string, number, boolean or \<^verbatim>\<open>null\<close>:
  a property holding \<^verbatim>\<open>undefined\<close> is left out, an array element holding \<^verbatim>\<open>undefined\<close>
  is written \<^verbatim>\<open>null\<close>. (\<^verbatim>\<open>JSON.stringify(undefined)\<close> itself is not a string; no caller
  below passes \<^verbatim>\<open>undefined\<close>.)
\<close>

fun stringify :: "json \<Rightarrow> string" where
  "stringify JUndefined = []"
| "stringify JNull = ''null''"
| "stringify (JBool b) = (if b then ''true'' else ''false'')"
| "stringify (JNum n) = show_int n"
| "stringify (JStr s) = quote s"
| "stringify (JArr xs) =
     ''['' @ join '','' (map (\<lambda>x. if x = JUndefined then ''null'' else stringify x) xs) @ '']''"
| "stringify (JObj fs) =
     ''{'' @ join '','' (map (\<lambda>(k, v). quote k @ '':'' @ stringify v)
                           (filter (\<lambda>(k, v). v \<noteq> JUndefined) fs)) @ ''}''"

section \<open>\<^verbatim>\<open>stripResponseMetadata\<close>\<close>

definition is_response_key :: "string \<Rightarrow> bool" where
  "is_response_key key =
     (key = ''response'' \<or> key = ''responseId'' \<or> key = ''rs_id'' \<or>
      key = ''response_id'' \<or> key = ''requestId'' \<or> key = ''request_id'')"

definition is_rs_string :: "json \<Rightarrow> bool" where
  "is_rs_string v = (case v of JStr s \<Rightarrow> startsWith s ''rs_'' | _ \<Rightarrow> False)"

text \<open>The replacer function handed to \<^verbatim>\<open>JSON.stringify\<close>.\<close>

definition replacer :: "string \<Rightarrow> json \<Rightarrow> json" where
  "replacer key v = (if is_response_key key \<or> is_rs_string v then JUndefined else v)"

text \<open>
  \<^verbatim>\<open>JSON.parse(JSON.stringify(v, replacer))\<close> below the root, on values: serialisation
  calls the replacer on every property of an object and on every element of an array
  (with the element's index as key); a property for which it returns \<^verbatim>\<open>undefined\<close> is
  left out, an array element for which it returns \<^verbatim>\<open>undefined\<close> is written \<^verbatim>\<open>null\<close>;
  what it returns otherwise is the value it was given, which is serialised in turn.
\<close>

function (sequential) reparse :: "json \<Rightarrow> json" where
  "reparse (JObj fs) =
     JObj (map (\<lambda>(k, v). (k, reparse v)) (filter (\<lambda>(k, v). replacer k v \<noteq> JUndefined) fs))"
| "reparse (JArr xs) =
     JArr (map (\<lambda>(i, v). if replacer (show_nat i) v = JUndefined then JNull else reparse v)
             (enumerate 0 xs))"
| "reparse v = v"
  by pat_completeness auto
termination
proof (relation "measure size", goal_cases)
  case 1
  show ?case by simp
next
  case (2 fs x k v)
  then have "(k, v) \<in> set fs"
    by auto
  then have "size v \<le> size_list (size_prod (\<lambda>_. 0) size) fs"
    by (rule size_list_estimation') simp
  then show ?case by simp
next
  case (3 xs x i v)
  then have "v \<in> set xs"
    by (auto simp: in_set_enumerate_eq)
  then have "size v \<le> size_list size xs"
    by (simp add: size_list_estimation')
  then show ?case by simp
qed

text \<open>
  The root is the part itself under the key \<^verbatim>\<open>''\<close>: an object or array, so the replacer
  returns it. Parts that are not objects are returned as they are.
\<close>

definition stripResponseMetadata :: "json list \<Rightarrow> json list" where
  "stripResponseMetadata parts =
     map (\<lambda>part. if \<not> truthy part \<or> \<not> typeof_object part then part
                  else reparse (replacer [] part)) parts"

subsection \<open>What the description of \<^verbatim>\<open>stripResponseMetadata\<close> says\<close>

text \<open>
  No object at any depth holds a property named like a response identifier or holding
  a string that starts with \<^verbatim>\<open>rs_\<close>.
\<close>

fun no_response_metadata :: "json \<Rightarrow> bool" where
  "no_response_metadata (JObj fs) =
     (\<forall>(k, v) \<in> set fs. \<not> is_response_key k \<and> \<not> is_rs_string v \<and> no_response_metadata v)"
| "no_response_metadata (JArr xs) = (\<forall>x \<in> set xs. no_response_metadata x)"
| "no_response_metadata v = True"

text \<open>A value as JSON text can carry it: \<^verbatim>\<open>undefined\<close> occurs nowhere.\<close>

fun is_json_data :: "json \<Rightarrow> bool" where
  "is_json_data JUndefined = False"
| "is_json_data (JObj fs) = (\<forall>(k, v) \<in> set fs. is_json_data v)"
| "is_json_data (JArr xs) = (\<forall>x \<in> set xs. is_json_data x)"
| "is_json_data v = True"

text \<open>
  The description read as a function: at every depth the properties named like a
  response identifier or holding an \<^verbatim>\<open>rs_\<close> string are removed, and everything else is
  kept as it is.
\<close>

fun remove_response_fields :: "json \<Rightarrow> json" where
  "remove_response_fields (JObj fs) =
     JObj (map (\<lambda>(k, v). (k, remove_response_fields v))
             (filter (\<lambda>(k, v). \<not> is_response_key k \<and> \<not> is_rs_string v) fs))"
| "remove_response_fields (JArr xs) = JArr (map remove_response_fields xs)"
| "remove_response_fields v = v"

text \<open>Array elements that are \<^verbatim>\<open>rs_\<close> strings, replaced by \<^verbatim>\<open>null\<close> at every depth.\<close>

fun null_rs_elements :: "json \<Rightarrow> json" where
  "null_rs_elements (JObj fs) = JObj (map (\<lambda>(k, v). (k, null_rs_elements v)) fs)"
| "null_rs_elements (JArr xs) =
     JArr (map (\<lambda>x. if is_rs_string x then JNull else null_rs_elements x) xs)"
| "null_rs_elements v = v"

section \<open>Messages and token estimation\<close>

text \<open>
  A \<^verbatim>\<open>BiomedUIMessage\<close>: an id, a role (\<^verbatim>\<open>'user'\<close>, \<^verbatim>\<open>'assistant'\<close>, \<^verbatim>\<open>'system'\<close>) and the
  array of its parts. \<open>message_json\<close> is the object \<^verbatim>\<open>JSON.stringify(message)\<close> is applied to.
\<close>

record message =
  msg_id :: string
  role :: string
  parts :: "json list"

definition message_json :: "message \<Rightarrow> json" where
  "message_json m = JObj [(''id'', JStr (msg_id m)), (''role'', JStr (role m)), (''parts'', JArr (parts m))]"

text \<open>\<^verbatim>\<open>Math.ceil(text.length / 4)\<close>.\<close>

definition estimateTokens :: "string \<Rightarrow> int" where
  "estimateTokens text = (int (length text) + 3) div 4"

text \<open>
  The string held by the \<^verbatim>\<open>text\<close> property of a text part (\<^verbatim>\<open>text: string\<close> in the part's
  type). A truthy \<^verbatim>\<open>text\<close> that is not a string lies outside that type; it is read as
  \<^verbatim>\<open>String(text)\<close> here.
\<close>

fun text_of :: "json \<Rightarrow> string" where
  "text_of (JStr s) = s"
| "text_of v = to_string v"

text \<open>
  What one part adds to the count in the loop of \<^verbatim>\<open>estimateMessageTokens\<close>. Nothing in
  the loop body can throw on these values, so its \<^verbatim>\<open>catch\<close> branches do not occur.
\<close>

definition part_tokens :: "json \<Rightarrow> int" where
  "part_tokens part =
     (case part of
        JStr s \<Rightarrow> estimateTokens s
      | _ \<Rightarrow>
          if is_object part then
            (if get part ''type'' = JStr ''text'' \<and> truthy (get part ''text'')
             then estimateTokens (text_of (get part ''text''))
             else estimateTokens (stringify part))
          else 0)"

text \<open>
  The estimate of a message: 4 for the role, the parts, and the whole message as JSON
  when that gives 10 or less. (\<^verbatim>\<open>JSON.stringify\<close> of a message cannot throw here either.)
\<close>

definition estimateMessageTokens :: "message \<Rightarrow> int" where
  "estimateMessageTokens m =
     (let tokens = 4 + sum_list (map part_tokens (parts m))
      in if tokens \<le> 10 then estimateTokens (stringify (message_json m)) else tokens)"

section \<open>\<^verbatim>\<open>trimMessages\<close>\<close>

text \<open>
  The backward loop over \<^verbatim>\<open>messageTokens\<close>: the first argument holds the entries still
  to visit, most recent first; \<^verbatim>\<open>break\<close> returns what has been kept so far.
\<close>

fun trim_loop :: "(message \<times> int) list \<Rightarrow> int \<Rightarrow> message list \<Rightarrow> int \<Rightarrow> message list \<times> int" where
  "trim_loop [] maxTokens trimmedMessages currentTokens = (trimmedMessages, currentTokens)"
| "trim_loop ((msg, tokens) # rest) maxTokens trimmedMessages currentTokens =
     (if currentTokens + tokens > maxTokens then (trimmedMessages, currentTokens)
      else trim_loop rest maxTokens (msg # trimmedMessages) (currentTokens + tokens))"

text \<open>The search, from the end, for the last message whose role is \<^verbatim>\<open>'user'\<close>.\<close>

definition last_user_message :: "message list \<Rightarrow> message option" where
  "last_user_message messages = find (\<lambda>m. role m = ''user'') (rev messages)"

definition trimMessages :: "message list \<Rightarrow> int \<Rightarrow> message list" where
  "trimMessages messages maxTokens =
     (if messages = [] then messages
      else
        let messageTokens = map (\<lambda>msg. (msg, estimateMessageTokens msg)) messages;
            (trimmedMessages, currentTokens) = trim_loop (rev messageTokens) maxTokens [] 0
        in if trimmedMessages = [] then
             (case last_user_message messages of
                Some u \<Rightarrow> [u]
              | None \<Rightarrow> [last messages])
           else trimmedMessages)"

text \<open>The summed estimate of a list of messages.\<close>

definition total_tokens :: "message list \<Rightarrow> int" where
  "total_tokens messages = sum_list (map estimateMessageTokens messages)"


subsection \<open>How far the loop gets\<close>



section \<open>\<^verbatim>\<open>countToolCalls\<close> and \<^verbatim>\<open>summarizeOlderMessages\<close>\<close>

text \<open>\<^verbatim>\<open>typeof t === 'string' && t.startsWith('tool-')\<close>, of the \<^verbatim>\<open>type\<close> property of a part.\<close>

definition is_tool_type :: "json \<Rightarrow> bool" where
  "is_tool_type t = (case t of JStr s \<Rightarrow> startsWith s ''tool-'' | _ \<Rightarrow> False)"

definition is_tool_part :: "json \<Rightarrow> bool" where
  "is_tool_part part = (is_object part \<and> is_tool_type (get part ''type''))"

definition countToolCalls :: "message list \<Rightarrow> nat" where
  "countToolCalls messages = length (filter is_tool_part (concat (map parts messages)))"

text \<open>The right arrow (U+2192) of the retrieval digest line, in UTF-8.\<close>

definition right_arrow :: string where
  "right_arrow = [CHR 0xE2, CHR 0x86, CHR 0x92]"

text \<open>
  \<^verbatim>\<open>p.toolCall?.args?.NAME || p.args?.NAME\<close>.
\<close>

definition tool_arg :: "json \<Rightarrow> string \<Rightarrow> json" where
  "tool_arg p name = js_or (get (get (get p ''toolCall'') ''args'') name) (get (get p ''args'') name)"

text \<open>
  What a tool part of type \<open>ty\<close> pushes on \<^verbatim>\<open>summaryParts\<close>. \<open>parse\<close> is \<^verbatim>\<open>JSON.parse\<close>, with
  \<open>None\<close> where it throws (the \<^verbatim>\<open>catch\<close> of the retrieval branch).
\<close>

definition tool_summary :: "(string \<Rightarrow> json option) \<Rightarrow> json \<Rightarrow> string \<Rightarrow> string list" where
  "tool_summary parse p ty =
     (let toolName = drop (length ''tool-'') ty in
      if ty = ''tool-olympiaRAGSearch'' then
        (case (case get p ''result'' of JStr s \<Rightarrow> parse s | r \<Rightarrow> Some r) of
           None \<Rightarrow> [''[RAG Search completed]'']
         | Some result \<Rightarrow>
             if truthy (get result ''context_id'')
             then [''[RAG Search: '' @ to_string (js_or (get result ''query'') (JStr ''unknown''))
                   @ '' '' @ right_arrow @ '' context_id: '' @ to_string (get result ''context_id'') @ '']'']
             else [])
      else if ty = ''tool-createChart'' then
        [''[Created chart: '' @ to_string (js_or (tool_arg p ''title'') (JStr ''chart'')) @ '']'']
      else if ty = ''tool-createCSV'' then
        [''[Created CSV: '' @ to_string (js_or (tool_arg p ''title'') (JStr ''csv'')) @ '']'']
      else if ty = ''tool-generateImage'' then
        [''[Generated image]'']
      else if ty = ''tool-webSearch'' then
        [''[Web search: '' @ [CHR 0x22] @ to_string (js_or (tool_arg p ''query'') (JStr [])) @ [CHR 0x22] @ '']'']
      else
        [''['' @ toolName @ '' completed]''])"

text \<open>What one part of a message with role \<open>r\<close> pushes on \<^verbatim>\<open>summaryParts\<close>.\<close>

definition part_summary :: "(string \<Rightarrow> json option) \<Rightarrow> string \<Rightarrow> json \<Rightarrow> string list" where
  "part_summary parse r part =
     (if \<not> is_object part then []
      else if get part ''type'' = JStr ''text'' \<and> truthy (get part ''text'') then
        (let t = text_of (get part ''text'');
             text = (if length t > 500 then substring0 t 500 @ ''...'' else t)
         in [''['' @ r @ '']: '' @ text])
      else
        (case get part ''type'' of
           JStr ty \<Rightarrow> if startsWith ty ''tool-'' then tool_summary parse part ty else []
         | _ \<Rightarrow> []))"

definition summaryParts :: "(string \<Rightarrow> json option) \<Rightarrow> message list \<Rightarrow> string list" where
  "summaryParts parse olderMessages =
     concat (map (\<lambda>msg. concat (map (part_summary parse (role msg)) (parts msg))) olderMessages)"

definition summaryText :: "(string \<Rightarrow> json option) \<Rightarrow> message list \<Rightarrow> string" where
  "summaryText parse olderMessages =
     ''**Conversation History Summary ('' @ show_nat (length olderMessages)
       @ '' earlier messages):**'' @ newline @ newline
       @ join newline (take 20 (summaryParts parse olderMessages))
       @ newline @ newline @ ''---'' @ newline @ newline
       @ ''*Recent conversation continues below:*''"

text \<open>The synthetic message; \<open>now\<close> is \<^verbatim>\<open>Date.now()\<close>.\<close>

definition summaryMessage :: "(string \<Rightarrow> json option) \<Rightarrow> int \<Rightarrow> message list \<Rightarrow> message" where
  "summaryMessage parse now olderMessages =
     \<lparr>msg_id = ''summary-'' @ show_int now, role = ''user'',
      parts = [JObj [(''type'', JStr ''text''), (''text'', JStr (summaryText parse olderMessages))]]\<rparr>"

definition summarizeOlderMessages :: "(string \<Rightarrow> json option) \<Rightarrow> int \<Rightarrow> message list \<Rightarrow> message list" where
  "summarizeOlderMessages parse now messages =
     (let toolCallCount = countToolCalls messages in
      if toolCallCount < 5 \<or> length messages \<le> 3 then messages
      else
        let recentMessages = drop (length messages - 3) messages;
            olderMessages = take (length messages - 3) messages
        in if olderMessages = [] then messages
           else summaryMessage parse now olderMessages # recentMessages)"

section \<open>The chat handler: building the history\<close>

text \<open>
  What can be thrown: the engine's \<^verbatim>\<open>TypeError\<close> and \<^verbatim>\<open>SyntaxError\<close>, and an \<^verbatim>\<open>Error\<close> with
  a message raised by a call to an external service.
\<close>

datatype error = TypeError | SyntaxError | Error string

text \<open>
  The part filter applied to messages taken from the request: text and tool parts are
  kept, and so is whatever is not an object.
\<close>

definition keep_frontend_part :: "json \<Rightarrow> bool" where
  "keep_frontend_part part =
     (if \<not> is_object part then True
      else get part ''type'' = JStr ''text'' \<or> is_tool_type (get part ''type''))"

text \<open>The check mark (U+2713) of the notes left in place of image data, in UTF-8.\<close>

definition check_mark :: string where
  "check_mark = [CHR 0xE2, CHR 0x9C, CHR 0x93]"

definition request_saved_note :: "json \<Rightarrow> string" where
  "request_saved_note imageId =
     check_mark @ '' Image saved to database (ID: '' @ to_string imageId
       @ ''). Display using: ![image](image:'' @ to_string imageId @ '')''"

text \<open>
  \<^verbatim>\<open>{ ...part, result: { ...part.result, imageData: undefined, _saved: note } }\<close>.
\<close>

definition without_image_data :: "json \<Rightarrow> string \<Rightarrow> json" where
  "without_image_data part note =
     JObj (set_field (fields_of part) ''result''
       (JObj (set_field (set_field (fields_of (get part ''result'')) ''imageData'' JUndefined)
                ''_saved'' (JStr note))))"

text \<open>
  The \<^verbatim>\<open>map\<close> step after the filter. It reads \<^verbatim>\<open>part.type\<close> of every part the filter
  kept; \<^verbatim>\<open>null\<close> passes the filter, and reading a property of it throws.
\<close>

definition strip_request_image :: "json \<Rightarrow> error + json" where
  "strip_request_image part =
     (if part = JNull \<or> part = JUndefined then Inl TypeError
      else if get part ''type'' = JStr ''tool-generateImage'' \<and> is_object (get part ''result'')
              \<and> truthy (get (get part ''result'') ''imageData'')
      then Inr (without_image_data part
                  (request_saved_note (js_or (get (get part ''result'') ''imageId'') (JStr ''unknown''))))
      else Inr part)"

text \<open>\<^verbatim>\<open>xs.map(f)\<close> for an \<open>f\<close> that may throw: the first exception ends the map.\<close>

fun map_throwing :: "('a \<Rightarrow> error + 'b) \<Rightarrow> 'a list \<Rightarrow> error + 'b list" where
  "map_throwing f [] = Inr []"
| "map_throwing f (x # xs) =
     (case f x of
        Inl e \<Rightarrow> Inl e
      | Inr y \<Rightarrow> (case map_throwing f xs of Inl e \<Rightarrow> Inl e | Inr ys \<Rightarrow> Inr (y # ys)))"

definition filter_frontend_message :: "message \<Rightarrow> error + message" where
  "filter_frontend_message msg =
     (case map_throwing strip_request_image (filter keep_frontend_part (parts msg)) of
        Inl e \<Rightarrow> Inl e
      | Inr ps \<Rightarrow> Inr (msg\<lparr>parts := ps\<rparr>))"

text \<open>
  A row of stored chat messages, as \<^verbatim>\<open>db.getChatMessages\<close> returns it and
  \<^verbatim>\<open>saveChatMessages\<close> takes it. \<open>content\<close> is the array of parts that the stored JSON
  text encodes (\<^verbatim>\<open>JSON.parse(msg.content)\<close>).
\<close>

record chat_row =
  row_id :: string
  row_role :: string
  content :: "json list"
  processing_time_ms :: "int option"

text \<open>The part filter applied to rows reloaded from storage.\<close>

definition keep_stored_part :: "json \<Rightarrow> bool" where
  "keep_stored_part part =
     (if \<not> is_object part then True
      else if get part ''type'' = JStr ''text'' then True
      else if is_tool_type (get part ''type'')
        then non_nullish (get part ''output'') \<or> non_nullish (get part ''result'')
      else False)"

definition load_row :: "chat_row \<Rightarrow> message" where
  "load_row msg =
     \<lparr>msg_id = row_id msg, role = row_role msg,
      parts = stripResponseMetadata (filter keep_stored_part (content msg))\<rparr>"

text \<open>
  The history built at the start of the request. \<open>stored\<close> is what
  \<^verbatim>\<open>db.getChatMessages\<close> returns for a session; \<open>sessionId\<close> is \<open>None\<close> when the request
  carries none.
\<close>

definition build_messages ::
  "(string \<Rightarrow> chat_row list) \<Rightarrow> string option \<Rightarrow> message list \<Rightarrow> error + message list" where
  "build_messages stored sessionId frontendMessages =
     (case sessionId of
        Some sid \<Rightarrow>
          if sid \<noteq> [] \<and> length frontendMessages > 1 then
            (let loadedMessages = map load_row (stored sid);
                 newMessage = last frontendMessages
             in case filter_frontend_message newMessage of
                  Inl e \<Rightarrow> Inl e
                | Inr filteredNewMessage \<Rightarrow> Inr (loadedMessages @ [filteredNewMessage]))
          else map_throwing filter_frontend_message frontendMessages
      | None \<Rightarrow> map_throwing filter_frontend_message frontendMessages)"

text \<open>
  What is handed to the model: the history, summarised and then trimmed to 10000 tokens.
\<close>

definition model_input ::
  "(string \<Rightarrow> json option) \<Rightarrow> int \<Rightarrow> (string \<Rightarrow> chat_row list) \<Rightarrow> string option
     \<Rightarrow> message list \<Rightarrow> error + message list" where
  "model_input parse now stored sessionId frontendMessages =
     (case build_messages stored sessionId frontendMessages of
        Inl e \<Rightarrow> Inl e
      | Inr messages \<Rightarrow> Inr (trimMessages (summarizeOlderMessages parse now messages) 10000))"

section \<open>The chat handler: persistence\<close>










section \<open>The retrieval endpoint \<^verbatim>\<open>POST /api/eco-rag\<close>\<close>

text \<open>
  A \<^verbatim>\<open>VectorResult\<close>. Distances are real numbers here; the rounding of floating-point
  arithmetic is not modelled. \<open>metadata\<close> is the object the index returns
  (\<^verbatim>\<open>vec.metadata as any\<close>), \<^verbatim>\<open>undefined\<close> when there is none.
\<close>

record vector_result =
  key :: string
  distance :: real
  metadata :: json

text \<open>An entry of the \<^verbatim>\<open>sources\<close> array of the response.\<close>

record source =
  src_doc_id :: json
  src_title :: json
  src_page :: json
  src_s3_pdf_key :: json
  src_distance :: real
  src_url :: string
  src_content :: json
  src_description :: string
  src_source :: string
  src_relevanceScore :: real
  src_toolType :: string

text \<open>The successful response body (\<^verbatim>\<open>RAGResponse\<close>).\<close>

record rag_response =
  context_id :: string
  compressed_summary :: string
  sources :: "source list"
  query :: string
  processingTimeMs :: int
  tokenCount :: int

text \<open>
  A response body: an error envelope \<^verbatim>\<open>{ error, details?, processingTimeMs? }\<close> or a
  \<^verbatim>\<open>RAGResponse\<close>.
\<close>

datatype rag_body =
    Failure string "error option" "int option"
  | Success rag_response

record http_response =
  status :: nat
  body :: rag_body

text \<open>A stored \<^verbatim>\<open>RagContext\<close> row, as \<^verbatim>\<open>db.createRagContext\<close> is given it.\<close>

record rag_context =
  ctx_id :: string
  ctx_sessionId :: json
  ctx_query :: string
  ctx_results :: "vector_result list"
  ctx_rawContext :: string
  ctx_compressedSummary :: string
  ctx_sources :: "source list"
  ctx_tokenCount :: int

text \<open>The calls the endpoint makes to the services outside it.\<close>

datatype external_call =
    EmbeddingCall string
  | VectorQueryCall json
  | CompressionCall string
  | AnswerCall string
  | StoreContextCall rag_context

text \<open>
  The world around one request: whether \<^verbatim>\<open>OPENAI_API_KEY\<close> is set; what the embedding
  API, the vector index and the chat-completion API answer (\<open>Inl\<close> when the call
  throws); whether \<^verbatim>\<open>db.createRagContext\<close> throws; the successive readings of
  \<^verbatim>\<open>Date.now()\<close>, \<open>clock 0\<close> being \<^verbatim>\<open>startTime\<close>; the random suffix of the context id; and
  \<^verbatim>\<open>toFixed(4)\<close> on a distance.
\<close>

record rag_env =
  api_key_set :: bool
  embeddings_create :: "string \<Rightarrow> error + real list"
  query_index :: "real list \<Rightarrow> json \<Rightarrow> error + vector_result list"
  chat_completion :: "string \<Rightarrow> error + (string \<times> int)"
  store_throws :: "error option"
  clock :: "nat \<Rightarrow> int"
  random_suffix :: string
  toFixed4 :: "real \<Rightarrow> string"

text \<open>
  \<^verbatim>\<open>String.prototype.trim\<close> removes white space at both ends; of the characters it
  removes, the ASCII ones (tab, line feed, vertical tab, form feed, carriage return,
  space) are modelled.
\<close>

definition is_space :: "char \<Rightarrow> bool" where
  "is_space c = (c \<in> {CHR 0x09, CHR 0x0A, CHR 0x0B, CHR 0x0C, CHR 0x0D, CHR 0x20})"

definition trim :: "string \<Rightarrow> string" where
  "trim s = rev (dropWhile is_space (rev (dropWhile is_space s)))"

definition buildContext :: "(real \<Rightarrow> string) \<Rightarrow> vector_result list \<Rightarrow> string" where
  "buildContext fixed results =
     concat (map (\<lambda>(index, result).
        let meta = js_or (metadata result) (JObj []) in
          newline @ newline @ ''--- Source '' @ show_nat (index + 1) @ '' ---'' @ newline
          @ ''Document: '' @ to_string (js_or (get meta ''title'') (JStr ''Unknown'')) @ newline
          @ ''Page: '' @ to_string (js_or (get meta ''page'') (JStr ''Unknown'')) @ newline
          @ ''Distance: '' @ fixed (distance result) @ newline
          @ ''Content:'' @ newline
          @ to_string (js_or (get meta ''snippet'') (JStr ''No content available'')) @ newline)
       (enumerate 0 results))"

text \<open>The user prompt of \<^verbatim>\<open>compressContext\<close>; the system prompt is a constant.\<close>

definition compress_prompt :: "string \<Rightarrow> string \<Rightarrow> string" where
  "compress_prompt q rawContext =
     ''Compress this context for the query: '' @ [CHR 0x22] @ q @ [CHR 0x22] @ newline @ newline
     @ ''RAW CONTEXT:'' @ newline @ rawContext @ newline @ newline
     @ ''COMPRESSED SUMMARY (max 800 tokens):''"

definition source_of :: "nat \<Rightarrow> vector_result \<Rightarrow> source" where
  "source_of index result =
     (let meta = metadata result in
      \<lparr>src_doc_id = js_or (get meta ''doc_id'') (JStr ''unknown''),
       src_title = js_or (get meta ''title'') (JStr ''Unknown Document''),
       src_page = js_or (get meta ''page'') (JNum 0),
       src_s3_pdf_key = get meta ''s3_pdf_key'',
       src_distance = distance result,
       src_url =
         (if truthy (get meta ''s3_pdf_key'')
          then ''https://olympia-plans-raw.s3.us-west-2.amazonaws.com/''
                 @ to_string (get meta ''s3_pdf_key'') @ ''#page=''
                 @ to_string (js_or (get meta ''page'') (JNum 1))
          else ''#source-'' @ show_nat (index + 1)),
       src_content = js_or (get meta ''snippet'') (JStr []),
       src_description = to_string (get meta ''title'') @ '' - Page '' @ to_string (get meta ''page''),
       src_source = ''City of Olympia Official Documents'',
       src_relevanceScore = 1 - distance result,
       src_toolType = ''olympia''\<rparr>)"

text \<open>
  Modelled from the spec: the database helper \<^verbatim>\<open>db.createRagContext\<close> (module
  \<^verbatim>\<open>@/lib/db\<close>), which creates one \<^verbatim>\<open>RagContext\<close> row per vector search call.
\<close>

definition createRagContext :: "rag_context \<Rightarrow> rag_context list \<Rightarrow> rag_context list" where
  "createRagContext row db = db @ [row]"

definition new_context_id :: "rag_env \<Rightarrow> nat \<Rightarrow> string" where
  "new_context_id env reading = ''ctx_'' @ show_int (clock env reading) @ ''_'' @ random_suffix env"

definition no_results_summary :: string where
  "no_results_summary =
     ''I couldn'' @ [CHR 0x27] @ ''t find any relevant information in the Olympia city planning documents for your query. Please try rephrasing your question or asking about a different topic.''"

text \<open>
  The \<^verbatim>\<open>catch\<close> of the handler: status 500 with the error as details; the clock is read
  a second time there.
\<close>

definition rag_failed :: "rag_env \<Rightarrow> error \<Rightarrow> http_response" where
  "rag_failed env e =
     \<lparr>status = 500, body = Failure ''RAG query failed'' (Some e) (Some (clock env 1 - clock env 0))\<rparr>"

definition query_required :: http_response where
  "query_required = \<lparr>status = 400, body = Failure ''Query parameter is required'' None None\<rparr>"

text \<open>
  The handler after the validation of the query. The result is the response, the
  external calls made, in order, and the stored contexts afterwards.
\<close>

definition rag_search ::
  "rag_env \<Rightarrow> rag_context list \<Rightarrow> string \<Rightarrow> json \<Rightarrow> json
     \<Rightarrow> http_response \<times> external_call list \<times> rag_context list" where
  "rag_search env db qs topK sessionId =
     (if \<not> api_key_set env then
        (\<lparr>status = 500, body = Failure ''OpenAI API key not configured'' None None\<rparr>, [], db)
      else
        (case embeddings_create env qs of
           Inl e \<Rightarrow> (rag_failed env e, [EmbeddingCall qs], db)
         | Inr queryEmbedding \<Rightarrow>
             (case query_index env queryEmbedding topK of
                Inl e \<Rightarrow> (rag_failed env e, [EmbeddingCall qs, VectorQueryCall topK], db)
              | Inr results \<Rightarrow>
                  if results = [] then
                    (\<lparr>status = 200,
                      body = Success
                        \<lparr>context_id = new_context_id env 1,
                         compressed_summary = no_results_summary,
                         sources = [], query = qs,
                         processingTimeMs = clock env 2 - clock env 0,
                         tokenCount = 0\<rparr>\<rparr>,
                     [EmbeddingCall qs, VectorQueryCall topK], db)
                  else
                    (let rawContext = buildContext (toFixed4 env) results;
                         prompt = compress_prompt qs rawContext
                     in case chat_completion env prompt of
                          Inl e \<Rightarrow>
                            (rag_failed env e,
                             [EmbeddingCall qs, VectorQueryCall topK, CompressionCall prompt], db)
                        | Inr (summary, tokens) \<Rightarrow>
                            (let srcs = map (\<lambda>(index, result). source_of index result)
                                          (enumerate 0 results);
                                 elapsed = clock env 1 - clock env 0;
                                 contextId = new_context_id env 2;
                                 row = \<lparr>ctx_id = contextId, ctx_sessionId = sessionId,
                                        ctx_query = qs, ctx_results = results,
                                        ctx_rawContext = rawContext,
                                        ctx_compressedSummary = summary,
                                        ctx_sources = srcs, ctx_tokenCount = tokens\<rparr>;
                                 response =
                                   \<lparr>status = 200,
                                    body = Success
                                      \<lparr>context_id = contextId,
                                       compressed_summary = summary,
                                       sources = srcs, query = qs,
                                       processingTimeMs = elapsed,
                                       tokenCount = tokens\<rparr>\<rparr>;
                                 calls = [EmbeddingCall qs, VectorQueryCall topK,
                                          CompressionCall prompt]
                             in if truthy sessionId then
                                  (case store_throws env of
                                     Some e \<Rightarrow> (response, calls @ [StoreContextCall row], db)
                                   | None \<Rightarrow>
                                       (response, calls @ [StoreContextCall row],
                                        createRagContext row db))
                                else (response, calls, db))))))"

text \<open>
  The handler. \<open>request\<close> is the parsed body, \<open>None\<close> when \<^verbatim>\<open>req.json()\<close> throws; \<open>db\<close>
  holds the stored contexts. Destructuring a \<^verbatim>\<open>null\<close> body throws, and so does
  \<^verbatim>\<open>query.trim()\<close> when the query is truthy and not a string.
\<close>

definition ecoRagPOST ::
  "rag_env \<Rightarrow> rag_context list \<Rightarrow> json option
     \<Rightarrow> http_response \<times> external_call list \<times> rag_context list" where
  "ecoRagPOST env db request =
     (case request of
        None \<Rightarrow> (rag_failed env SyntaxError, [], db)
      | Some b \<Rightarrow>
          if b = JNull \<or> b = JUndefined then (rag_failed env TypeError, [], db)
          else
            let q = get b ''query'';
                topK = (if get b ''topK'' = JUndefined then JNum 5 else get b ''topK'');
                sessionId = get b ''sessionId''
            in
            if \<not> truthy q then (query_required, [], db)
            else
              (case q of
                 JStr qs \<Rightarrow>
                   if length (trim qs) = 0 then (query_required, [], db)
                   else rag_search env db qs topK sessionId
               | _ \<Rightarrow> (rag_failed env TypeError, [], db)))"

subsection \<open>The earlier copy of the route\<close>

text \<open>
  The repository holds a second, earlier copy of the route, which validates the query in
  the same way, answers with a generated \<^verbatim>\<open>answer\<close> instead of a compressed summary and
  stores nothing.
\<close>

record legacy_source =
  legacy_doc_id :: json
  legacy_title :: json
  legacy_page :: json
  legacy_s3_pdf_key :: json
  legacy_distance :: real

record legacy_response =
  answer :: string
  legacy_sources :: "legacy_source list"
  legacy_query :: string
  legacy_processingTimeMs :: int









section \<open>Stored retrieval contexts\<close>

text \<open>
  Modelled from the spec: the database helper \<^verbatim>\<open>db.countRagContextsForSession\<close> (module
  \<^verbatim>\<open>@/lib/db\<close>). A \<^verbatim>\<open>RagContext\<close> row carries a session reference; the quota is a count of
  a session's rows followed by an insert.
\<close>

definition countRagContextsForSession :: "string \<Rightarrow> rag_context list \<Rightarrow> nat" where
  "countRagContextsForSession sessionId db =
     length (filter (\<lambda>c. ctx_sessionId c = JStr sessionId) db)"

text \<open>
  Modelled from the spec: the database helper \<^verbatim>\<open>db.listRagContextsForSession\<close> (module
  \<^verbatim>\<open>@/lib/db\<close>), the rows of a session.
\<close>

definition listRagContextsForSession :: "string \<Rightarrow> rag_context list \<Rightarrow> rag_context list" where
  "listRagContextsForSession sessionId db = filter (\<lambda>c. ctx_sessionId c = JStr sessionId) db"

section \<open>The tool \<^verbatim>\<open>olympiaRAGSearch\<close>\<close>

definition MAX_RAG_CALLS_PER_SESSION :: nat where
  "MAX_RAG_CALLS_PER_SESSION = 4"

text \<open>The no-entry sign (U+26D4), the cross mark (U+274C) and the warning sign
  (U+26A0 U+FE0F) of the tool's messages, in UTF-8.\<close>

definition no_entry :: string where
  "no_entry = [CHR 0xE2, CHR 0x9B, CHR 0x94]"

definition cross_mark :: string where
  "cross_mark = [CHR 0xE2, CHR 0x9D, CHR 0x8C]"

definition warning_sign :: string where
  "warning_sign = [CHR 0xE2, CHR 0x9A, CHR 0xA0, CHR 0xEF, CHR 0xB8, CHR 0x8F]"

text \<open>
  The preview of a stored context: the first 500 characters of its summary, an ellipsis
  when it is longer, \<^verbatim>\<open>'No preview'\<close> when that is empty.
\<close>

definition context_preview :: "rag_context \<Rightarrow> string" where
  "context_preview c =
     (let s = ctx_compressedSummary c;
          p = substring0 s 500 @ (if length s > 500 then ''...'' else [])
      in if p = [] then ''No preview'' else p)"

definition readable_entry :: "nat \<Rightarrow> rag_context \<Rightarrow> string" where
  "readable_entry i c =
     show_nat (i + 1) @ ''. Query: '' @ [CHR 0x22] @ ctx_query c @ [CHR 0x22] @ newline
     @ ''   Context ID: '' @ ctx_id c @ newline
     @ ''   Preview: '' @ substring0 (context_preview c) 200 @ ''...''"

definition readableList :: "rag_context list \<Rightarrow> string" where
  "readableList existingContexts =
     join (newline @ newline) (map (\<lambda>(i, c). readable_entry i c) (enumerate 0 existingContexts))"

definition limit_reached_message :: "rag_context list \<Rightarrow> string" where
  "limit_reached_message existingContexts =
     no_entry @ '' **STOP - RAG SEARCH LIMIT REACHED**'' @ newline @ newline
     @ ''This search was BLOCKED. You have used all '' @ show_nat MAX_RAG_CALLS_PER_SESSION
     @ '' RAG searches for this conversation.'' @ newline @ newline
     @ ''**CRITICAL: Do NOT call olympiaRAGSearch again - it will always fail.**'' @ newline @ newline
     @ ''Instead, answer the user using your previous search results below:'' @ newline @ newline
     @ ''---'' @ newline @ newline
     @ readableList existingContexts @ newline @ newline
     @ ''---'' @ newline @ newline
     @ ''**YOUR OPTIONS:**'' @ newline
     @ ''1. Answer using the previews above (they contain key facts)'' @ newline
     @ ''2. Call `getRAGContext('' @ [CHR 0x22] @ ''context_id'' @ [CHR 0x22]
     @ '')` for full details from any previous search'' @ newline
     @ ''3. If data is insufficient, tell the user to start a new chat'' @ newline @ newline
     @ ''**NEVER call olympiaRAGSearch again in this conversation.**''"

text \<open>An entry of \<^verbatim>\<open>sourcesMinimal\<close>.\<close>

record minimal_source =
  min_title :: json
  min_page :: json
  min_url :: string
  min_relevanceScore :: real
  min_content :: json
  min_source :: string
  min_toolType :: string

definition minimal_source_of :: "source \<Rightarrow> minimal_source" where
  "minimal_source_of s =
     \<lparr>min_title = src_title s, min_page = src_page s, min_url = src_url s,
      min_relevanceScore = src_relevanceScore s, min_content = src_content s,
      min_source = src_source s, min_toolType = src_toolType s\<rparr>"

text \<open>The object the tool serialises on success.\<close>

record search_payload =
  payload_type :: string
  payload_context_id :: string
  brief :: string
  payload_query :: string
  payload_sources :: "minimal_source list"
  payload_results :: "minimal_source list"
  resultCount :: nat
  searchesRemaining :: int
  payload_warning :: string
  payload_note :: string
  displaySource :: string

text \<open>
  What the tool returns: a plain text, or the text \<^verbatim>\<open>JSON.stringify(payload, null, 2)\<close>
  of a payload.
\<close>

datatype tool_return = Text string | Serialised search_payload

definition searchWarning :: "int \<Rightarrow> string" where
  "searchWarning remainingSearches =
     (if remainingSearches \<le> 0 then
        no_entry @ '' NO MORE SEARCHES ALLOWED. Use getRAGContext for follow-up queries.''
      else if remainingSearches = 1 then
        warning_sign @ '' LAST SEARCH REMAINING. Make it comprehensive!''
      else show_int remainingSearches @ '' searches remaining.'')"

text \<open>The request body the tool posts: \<^verbatim>\<open>JSON.stringify({ query, topK, sessionId })\<close>.\<close>

definition search_request :: "string \<Rightarrow> int \<Rightarrow> string option \<Rightarrow> json" where
  "search_request q topK sessionId =
     JObj ([(''query'', JStr q), (''topK'', JNum topK)]
           @ (case sessionId of Some sid \<Rightarrow> [(''sessionId'', JStr sid)] | None \<Rightarrow> []))"

text \<open>The message of a thrown error; the engine's own errors are shown by their names.\<close>

definition error_text :: "error \<Rightarrow> string" where
  "error_text e = (case e of Error m \<Rightarrow> m | TypeError \<Rightarrow> ''TypeError'' | SyntaxError \<Rightarrow> ''SyntaxError'')"

definition search_error :: "string \<Rightarrow> tool_return" where
  "search_error m = Text (cross_mark @ '' Error searching Olympia documents: '' @ m)"

text \<open>
  The tool once the limit check has let the call through: the \<^verbatim>\<open>fetch\<close> of the endpoint
  (\<open>fetch_throws\<close> tells whether it throws; the endpoint is the function above, run on
  the same stored contexts) and the formatting of its answer. The analytics call
  \<^verbatim>\<open>track\<close> is left out.
\<close>

definition fetch_and_format ::
  "rag_env \<Rightarrow> error option \<Rightarrow> rag_context list \<Rightarrow> string option \<Rightarrow> string \<Rightarrow> int
     \<Rightarrow> tool_return \<times> external_call list \<times> rag_context list" where
  "fetch_and_format env fetch_throws db sessionId q topK =
     (case fetch_throws of
        Some e \<Rightarrow> (search_error (error_text e), [], db)
      | None \<Rightarrow>
          (case ecoRagPOST env db (Some (search_request q topK sessionId)) of
             (response, calls, db') \<Rightarrow>
               (case body response of
                  Failure err details elapsed \<Rightarrow>
                    (let d = (case details of Some e \<Rightarrow> error_text e | None \<Rightarrow> [])
                     in (search_error (if d \<noteq> [] then d else err), calls, db'))
                | Success data \<Rightarrow>
                    (let sourcesMinimal = map minimal_source_of (sources data);
                         briefSummary =
                           (if compressed_summary data \<noteq> [] then
                              substring0 (compressed_summary data) 6000
                              @ (if length (compressed_summary data) > 6000 then ''...'' else [])
                            else ''No summary available'');
                         remainingSearches =
                           (case sessionId of
                              Some sid \<Rightarrow>
                                if sid \<noteq> [] then
                                  int MAX_RAG_CALLS_PER_SESSION - int (countRagContextsForSession sid db')
                                else int MAX_RAG_CALLS_PER_SESSION
                            | None \<Rightarrow> int MAX_RAG_CALLS_PER_SESSION)
                     in (Serialised
                           \<lparr>payload_type = ''olympia_planning'',
                            payload_context_id = context_id data,
                            brief = briefSummary,
                            payload_query = q,
                            payload_sources = sourcesMinimal,
                            payload_results = sourcesMinimal,
                            resultCount = length sourcesMinimal,
                            searchesRemaining = remainingSearches,
                            payload_warning = searchWarning remainingSearches,
                            payload_note = ''Full context (up to 8000 tokens) stored. Use getRAGContext(''
                              @ [CHR 0x22] @ context_id data @ [CHR 0x22]
                              @ '') for complete details if needed.'',
                            displaySource = ''City of Olympia Official Documents''\<rparr>,
                         calls, db')))))"

text \<open>
  The tool. \<open>sessionId\<close> is \<^verbatim>\<open>experimental_context.sessionId\<close>, \<open>None\<close> when it is missing.
  The result is what the tool returns, the external calls made, and the stored contexts
  afterwards.
\<close>

definition olympiaRAGSearch ::
  "rag_env \<Rightarrow> error option \<Rightarrow> rag_context list \<Rightarrow> string option \<Rightarrow> string \<Rightarrow> int
     \<Rightarrow> tool_return \<times> external_call list \<times> rag_context list" where
  "olympiaRAGSearch env fetch_throws db sessionId q topK =
     (case sessionId of
        Some sid \<Rightarrow>
          if sid \<noteq> [] then
            (let ragCallCount = countRagContextsForSession sid db in
             if ragCallCount \<ge> MAX_RAG_CALLS_PER_SESSION then
               (let existingContexts = listRagContextsForSession sid db
                in (Text (limit_reached_message existingContexts), [], db))
             else fetch_and_format env fetch_throws db sessionId q topK)
          else fetch_and_format env fetch_throws db sessionId q topK
      | None \<Rightarrow> fetch_and_format env fetch_throws db sessionId q topK)"

text \<open>
  A sequence of invocations for one session, one after the other: each has its own
  world, query and \<^verbatim>\<open>topK\<close>. The result is the stored contexts at the end.
\<close>

fun search_sequence ::
  "string option \<Rightarrow> (rag_env \<times> error option \<times> string \<times> int) list \<Rightarrow> rag_context list
     \<Rightarrow> rag_context list" where
  "search_sequence sessionId [] db = db"
| "search_sequence sessionId ((env, fetch_throws, q, topK) # rest) db =
     search_sequence sessionId rest
       (snd (snd (olympiaRAGSearch env fetch_throws db sessionId q topK)))"

section \<open>The tool \<^verbatim>\<open>generateImage\<close>\<close>








section \<open>Example data\<close>

text \<open>A short exchange of text messages, estimated at 13, 15 and 13 tokens.\<close>

definition question1 :: message where
  "question1 = \<lparr>msg_id = ''a'', role = ''user'',
     parts = [JObj [(''type'', JStr ''text''), (''text'', JStr ''Summarise the sea level rise plan'')]]\<rparr>"

definition answer1 :: message where
  "answer1 = \<lparr>msg_id = ''b'', role = ''assistant'',
     parts = [JObj [(''type'', JStr ''text''),
                    (''text'', JStr ''The plan sets out three phases of response'')]]\<rparr>"

definition question2 :: message where
  "question2 = \<lparr>msg_id = ''c'', role = ''user'',
     parts = [JObj [(''type'', JStr ''text''), (''text'', JStr ''And the budget for the first phase?'')]]\<rparr>"

text \<open>An assistant message with five tool parts, all carrying a result.\<close>

definition tools_answer :: message where
  "tools_answer = \<lparr>msg_id = ''t'', role = ''assistant'',
     parts =
       [JObj [(''type'', JStr ''tool-olympiaRAGSearch''),
              (''result'', JObj [(''context_id'', JStr ''ctx_1_abc''), (''query'', JStr ''sea level'')])],
        JObj [(''type'', JStr ''tool-createChart''), (''args'', JObj [(''title'', JStr ''Budget'')]),
              (''output'', JStr ''ok'')],
        JObj [(''type'', JStr ''tool-generateImage''), (''output'', JStr ''ok'')],
        JObj [(''type'', JStr ''tool-webSearch''), (''args'', JObj [(''query'', JStr ''olympia'')]),
              (''output'', JStr ''ok'')],
        JObj [(''type'', JStr ''tool-codeExecution''), (''output'', JStr ''ok'')]]\<rparr>"

text \<open>
  A stored conversation: a user row and an assistant row whose parts are a text, a
  finished web search carrying a response identifier, an unfinished tool call and a
  step marker.
\<close>

definition stored_rows :: "string \<Rightarrow> chat_row list" where
  "stored_rows sid =
     (if sid = ''s1'' then
        [\<lparr>row_id = ''r1'', row_role = ''user'',
          content = [JObj [(''type'', JStr ''text''), (''text'', JStr ''Summarise the sea level rise plan'')]],
          processing_time_ms = None\<rparr>,
         \<lparr>row_id = ''r2'', row_role = ''assistant'',
          content = [JObj [(''type'', JStr ''text''), (''text'', JStr ''The plan sets out three phases of response'')],
                     JObj [(''type'', JStr ''tool-webSearch''), (''responseId'', JStr ''resp_1''),
                           (''output'', JStr ''found'')],
                     JObj [(''type'', JStr ''tool-createChart''), (''state'', JStr ''input-available'')],
                     JObj [(''type'', JStr ''step-start'')]],
          processing_time_ms = Some 1200\<rparr>]
      else [])"





text \<open>
  A world in which the retrieval services answer: one page is found and compressed to a
  summary of 12 tokens.
\<close>

definition sea_level_page :: vector_result where
  "sea_level_page =
     \<lparr>key = ''slr-plan#12'', distance = 1 / 4,
      metadata = JObj [(''doc_id'', JStr ''slr-plan''), (''title'', JStr ''Sea Level Rise Response Plan''),
                       (''page'', JNum 12), (''snippet'', JStr ''Three phases of response are planned.'')]\<rparr>"

definition rag_world :: rag_env where
  "rag_world =
     \<lparr>api_key_set = True,
      embeddings_create = (\<lambda>q. Inr [1 / 10, 2 / 10]),
      query_index = (\<lambda>embedding topK. Inr [sea_level_page]),
      chat_completion = (\<lambda>prompt. Inr (''Sea level rise is met in three phases.'', 12)),
      store_throws = None,
      clock = (\<lambda>reading. 1000 + 250 * int reading),
      random_suffix = ''k3j9x2m1q'',
      toFixed4 = (\<lambda>d. ''0.2500'')\<rparr>"

text \<open>The request the search tool posts for the query \<^verbatim>\<open>sea level rise\<close> in session \<^verbatim>\<open>s1\<close>.\<close>

definition sea_level_request :: json where
  "sea_level_request =
     JObj [(''query'', JStr ''sea level rise''), (''topK'', JNum 8), (''sessionId'', JStr ''s1'')]"

text \<open>A stored context of session \<^verbatim>\<open>s1\<close> with the given id.\<close>

definition stored_context :: "string \<Rightarrow> rag_context" where
  "stored_context cid =
     \<lparr>ctx_id = cid, ctx_sessionId = JStr ''s1'', ctx_query = ''sea level rise'',
      ctx_results = [], ctx_rawContext = [], ctx_compressedSummary = ''Three phases.'',
      ctx_sources = [], ctx_tokenCount = 3\<rparr>"

definition four_contexts :: "rag_context list" where
  "four_contexts =
     [stored_context ''ctx_1'', stored_context ''ctx_2'', stored_context ''ctx_3'',
      stored_context ''ctx_4'']"

section \<open>Evaluation of numerals as text\<close>

lemma digit_char_values:
  "digit_char 0 = CHR ''0''" "digit_char 1 = CHR ''1''" "digit_char 2 = CHR ''2''"
  "digit_char 3 = CHR ''3''" "digit_char 4 = CHR ''4''" "digit_char 5 = CHR ''5''"
  "digit_char 6 = CHR ''6''" "digit_char 7 = CHR ''7''" "digit_char 8 = CHR ''8''"
  "digit_char 9 = CHR ''9''" "digit_char (Suc 0) = CHR ''1''"
  by code_simp+

section \<open>Objects and throwing maps\<close>








section \<open>Properties of \<^verbatim>\<open>trimMessages\<close>\<close>

lemma estimateTokens_nonneg: "0 \<le> estimateTokens s"
  by (simp add: estimateTokens_def)

lemma part_tokens_nonneg: "0 \<le> part_tokens p"
  by (cases p) (simp_all add: part_tokens_def estimateTokens_nonneg)



lemma total_tokens_append [simp]: "total_tokens (xs @ ys) = total_tokens xs + total_tokens ys"
  by (simp add: total_tokens_def)

lemma total_tokens_Cons [simp]: "total_tokens (x # xs) = estimateMessageTokens x + total_tokens xs"
  by (simp add: total_tokens_def)

lemma total_tokens_Nil [simp]: "total_tokens [] = 0"
  by (simp add: total_tokens_def)

























section \<open>Properties of the two saves\<close>








section \<open>Properties of \<^verbatim>\<open>summarizeOlderMessages\<close>\<close>




section \<open>Properties of the history handed to the model\<close>

lemma map_throwing_Inr:
  "(\<And>x. x \<in> set xs \<Longrightarrow> \<exists>y. f x = Inr y) \<Longrightarrow> \<exists>ys. map_throwing f xs = Inr ys \<and> length ys = length xs"
proof (induction xs)
  case Nil
  then show ?case by simp
next
  case (Cons x xs)
  then obtain y ys where "f x = Inr y" "map_throwing f xs = Inr ys" "length ys = length xs"
    by (metis list.set_intros(1) list.set_intros(2))
  then show ?case by simp
qed

lemma strip_request_image_defined:
  "part \<noteq> JNull \<Longrightarrow> part \<noteq> JUndefined \<Longrightarrow> \<exists>p. strip_request_image part = Inr p"
  by (simp add: strip_request_image_def)

lemma filter_frontend_message_defined:
  assumes "JNull \<notin> set (parts m)" "JUndefined \<notin> set (parts m)"
  shows "\<exists>new. filter_frontend_message m = Inr new \<and> msg_id new = msg_id m \<and> role new = role m"
proof -
  have "\<exists>ys. map_throwing strip_request_image (filter keep_frontend_part (parts m)) = Inr ys
      \<and> length ys = length (filter keep_frontend_part (parts m))"
    using assms by (intro map_throwing_Inr strip_request_image_defined) auto
  then show ?thesis
    by (auto simp: filter_frontend_message_def)
qed

text \<open>
  C6. For a request that carries a session id and more than one frontend message, the
  history the handler builds is the stored messages of the session, reloaded (their
  parts filtered, response metadata stripped), followed by the last frontend message
  (filtered); it is built whenever that last message holds no \<^verbatim>\<open>null\<close> part. Two such
  requests with the same last message give the same history and the same model input,
  whatever their earlier frontend messages are.
\<close>

theorem build_messages_reloads_history:
  assumes "sid \<noteq> []" and "1 < length fm"
  shows "build_messages stored (Some sid) fm =
           (case filter_frontend_message (last fm) of
              Inl e \<Rightarrow> Inl e
            | Inr new \<Rightarrow> Inr (map load_row (stored sid) @ [new]))
       \<and> (JNull \<notin> set (parts (last fm)) \<and> JUndefined \<notin> set (parts (last fm)) \<longrightarrow>
            (\<exists>new. build_messages stored (Some sid) fm = Inr (map load_row (stored sid) @ [new])
               \<and> filter_frontend_message (last fm) = Inr new
               \<and> msg_id new = msg_id (last fm) \<and> role new = role (last fm)))
       \<and> (\<forall>fm'. 1 < length fm' \<and> last fm' = last fm \<longrightarrow>
             build_messages stored (Some sid) fm' = build_messages stored (Some sid) fm \<and>
             model_input parse now stored (Some sid) fm' = model_input parse now stored (Some sid) fm)"
proof (intro conjI impI allI)
  show eq: "build_messages stored (Some sid) fm =
      (case filter_frontend_message (last fm) of
         Inl e \<Rightarrow> Inl e
       | Inr new \<Rightarrow> Inr (map load_row (stored sid) @ [new]))"
    using assms by (simp add: build_messages_def Let_def)
  {
    assume "JNull \<notin> set (parts (last fm)) \<and> JUndefined \<notin> set (parts (last fm))"
    then obtain new where "filter_frontend_message (last fm) = Inr new"
        "msg_id new = msg_id (last fm)" "role new = role (last fm)"
      using filter_frontend_message_defined [of "last fm"] by auto
    then show "\<exists>new. build_messages stored (Some sid) fm = Inr (map load_row (stored sid) @ [new])
        \<and> filter_frontend_message (last fm) = Inr new
        \<and> msg_id new = msg_id (last fm) \<and> role new = role (last fm)"
      using eq by simp
  }
  fix fm' :: "message list"
  assume fm': "1 < length fm' \<and> last fm' = last fm"
  then show same: "build_messages stored (Some sid) fm' = build_messages stored (Some sid) fm"
    using assms by (simp add: build_messages_def Let_def)
  show "model_input parse now stored (Some sid) fm' = model_input parse now stored (Some sid) fm"
    by (simp add: model_input_def same)
qed


text \<open>
  The theorem on the example session: the unfinished tool call, the step marker and the
  response identifier of the stored rows are gone, and the earlier frontend messages
  make no difference.
\<close>

theorem build_messages_reloads_history_witness:
  "''s1'' \<noteq> [] \<and> 1 < length [answer1, tools_answer, question2] \<and>
   JNull \<notin> set (parts (last [answer1, tools_answer, question2])) \<and>
   JUndefined \<notin> set (parts (last [answer1, tools_answer, question2])) \<and>
   build_messages stored_rows (Some ''s1'') [answer1, tools_answer, question2]
     = Inr [\<lparr>msg_id = ''r1'', role = ''user'',
             parts = [JObj [(''type'', JStr ''text''), (''text'', JStr ''Summarise the sea level rise plan'')]]\<rparr>,
            \<lparr>msg_id = ''r2'', role = ''assistant'',
             parts = [JObj [(''type'', JStr ''text''), (''text'', JStr ''The plan sets out three phases of response'')],
                      JObj [(''type'', JStr ''tool-webSearch''), (''output'', JStr ''found'')]]\<rparr>,
            question2] \<and>
   build_messages stored_rows (Some ''s1'') [question1, question2]
     = build_messages stored_rows (Some ''s1'') [answer1, tools_answer, question2]"
  using build_messages_reloads_history
    [where sid = "''s1''" and fm = "[answer1, tools_answer, question2]" and stored = stored_rows
       and parse = "\<lambda>s. None" and now = 0]
  by (simp add: build_messages_def load_row_def stripResponseMetadata_def keep_stored_part_def
      is_object_def is_tool_type_def startsWith_def non_nullish_def replacer_def
      is_response_key_def is_rs_string_def filter_frontend_message_def keep_frontend_part_def
      strip_request_image_def stored_rows_def question1_def question2_def)

section \<open>Properties of \<^verbatim>\<open>stripResponseMetadata\<close>\<close>

lemma replacer_eq_undefined:
  "replacer k v = JUndefined \<longleftrightarrow> is_response_key k \<or> is_rs_string v \<or> v = JUndefined"
  by (auto simp: replacer_def)

lemma show_nat_digits: "c \<in> set (show_nat n) \<Longrightarrow> of_char c < (58 :: nat)"
proof (induction n rule: show_nat.induct)
  case (1 n)
  have mod_digit: "of_char (digit_char d) < (58 :: nat)" if "d < 10" for d
    using that by (simp add: digit_char_def)
  show ?case
  proof (cases "n < 10")
    case True
    with 1(2) show ?thesis
      by (simp add: show_nat.simps [of n] mod_digit)
  next
    case False
    with 1 show ?thesis
      by (auto simp: show_nat.simps [of n] mod_digit)
  qed
qed

lemma not_response_key_show_nat: "\<not> is_response_key (show_nat i)"
proof
  assume "is_response_key (show_nat i)"
  then have "CHR ''r'' \<in> set (show_nat i)"
    by (auto simp: is_response_key_def)
  then have "of_char (CHR ''r'') < (58 :: nat)"
    by (rule show_nat_digits)
  then show False by simp
qed

lemma is_rs_string_reparse: "is_rs_string (reparse v) \<longleftrightarrow> is_rs_string v"
  by (cases v) (simp_all add: is_rs_string_def)

lemma reparse_no_response_metadata: "no_response_metadata (reparse v)"
proof (induction v rule: reparse.induct)
  case (1 fs)
  show ?case
    using 1 by (auto simp: replacer_eq_undefined is_rs_string_reparse)
next
  case (2 xs)
  show ?case
    using 2 by (auto simp: in_set_enumerate_eq)
qed simp_all

lemma map_enumerate_snd: "map (\<lambda>(i, v). g v) (enumerate n xs) = map g xs"
  by (induction xs arbitrary: n) simp_all

lemma is_rs_string_null_rs: "is_rs_string (null_rs_elements v) \<longleftrightarrow> is_rs_string v"
  by (cases v) (simp_all add: is_rs_string_def)

lemma reparse_array_step:
  "(\<lambda>(i, v). if replacer (show_nat i) v = JUndefined then JNull else reparse v)
     = (\<lambda>(i, v). if is_rs_string v \<or> v = JUndefined then JNull else reparse v)"
  by (auto simp: fun_eq_iff replacer_eq_undefined not_response_key_show_nat)

lemma reparse_eq_spec:
  "is_json_data v \<Longrightarrow> reparse v = remove_response_fields (null_rs_elements v)"
proof (induction v rule: reparse.induct)
  case (1 fs)
  have keep: "filter (\<lambda>(k, v). \<not> is_response_key k \<and> \<not> is_rs_string v) (map (\<lambda>(k, v). (k, null_rs_elements v)) fs)
      = map (\<lambda>(k, v). (k, null_rs_elements v)) (filter (\<lambda>(k, v). replacer k v \<noteq> JUndefined) fs)"
    using "1.prems"
    by (induction fs) (auto simp: replacer_eq_undefined is_rs_string_null_rs)
  have "map (\<lambda>(k, v). (k, reparse v)) (filter (\<lambda>(k, v). replacer k v \<noteq> JUndefined) fs)
      = map (\<lambda>(k, v). (k, remove_response_fields (null_rs_elements v))) (filter (\<lambda>(k, v). replacer k v \<noteq> JUndefined) fs)"
    using 1 by (intro map_cong refl) auto
  also have "\<dots> = map (\<lambda>(k, v). (k, remove_response_fields v))
      (map (\<lambda>(k, v). (k, null_rs_elements v)) (filter (\<lambda>(k, v). replacer k v \<noteq> JUndefined) fs))"
    by (simp add: comp_def case_prod_unfold)
  finally show ?case
    by (simp only: reparse.simps null_rs_elements.simps remove_response_fields.simps keep)
next
  case (2 xs)
  have "map (\<lambda>v. if is_rs_string v \<or> v = JUndefined then JNull else reparse v) xs
      = map (\<lambda>v. remove_response_fields (if is_rs_string v then JNull else null_rs_elements v)) xs"
  proof (intro map_cong refl)
    fix v assume v: "v \<in> set xs"
    then obtain i where "i < length xs" "xs ! i = v"
      by (auto simp: in_set_conv_nth)
    then have "(i, v) \<in> set (enumerate 0 xs)"
      by (simp add: in_set_enumerate_eq)
    moreover have "is_json_data v" "v \<noteq> JUndefined"
      using v "2.prems" by auto
    ultimately show "(if is_rs_string v \<or> v = JUndefined then JNull else reparse v)
        = remove_response_fields (if is_rs_string v then JNull else null_rs_elements v)"
      using "2.IH" [of "(i, v)" i v] by (auto simp: replacer_eq_undefined not_response_key_show_nat)
  qed
  then show ?case
    by (simp add: reparse_array_step map_enumerate_snd comp_def)
qed simp_all

text \<open>
  C8, as amended. In what \<^verbatim>\<open>stripResponseMetadata\<close> returns, no object at any depth holds
  a property named \<^verbatim>\<open>response\<close>, \<^verbatim>\<open>responseId\<close>, \<^verbatim>\<open>rs_id\<close>, \<^verbatim>\<open>response_id\<close>,
  \<^verbatim>\<open>requestId\<close> or \<^verbatim>\<open>request_id\<close>, nor a property whose value is a string starting with
  \<^verbatim>\<open>rs_\<close>. For parts that are JSON data the result is the input with exactly those
  properties removed at every depth, after every array element that is a string
  starting with \<^verbatim>\<open>rs_\<close> has been replaced by \<^verbatim>\<open>null\<close>; everything else is unchanged.
\<close>

theorem stripResponseMetadata_result:
  "(\<forall>p \<in> set (stripResponseMetadata ps). no_response_metadata p) \<and>
   ((\<forall>p \<in> set ps. is_json_data p) \<longrightarrow>
      stripResponseMetadata ps = map (\<lambda>p. remove_response_fields (null_rs_elements p)) ps)"
proof (intro conjI impI)
  show "\<forall>p \<in> set (stripResponseMetadata ps). no_response_metadata p"
  proof
    fix p assume "p \<in> set (stripResponseMetadata ps)"
    then obtain q where q: "q \<in> set ps"
      and p: "p = (if \<not> truthy q \<or> \<not> typeof_object q then q else reparse (replacer [] q))"
      by (auto simp: stripResponseMetadata_def)
    show "no_response_metadata p"
    proof (cases "\<not> truthy q \<or> \<not> typeof_object q")
      case True
      then show ?thesis
        using p by (cases q) auto
    next
      case False
      then have "replacer [] q = q"
        by (cases q) (auto simp: replacer_def is_response_key_def is_rs_string_def)
      then show ?thesis
        using p False by (simp add: reparse_no_response_metadata)
    qed
  qed
next
  assume json: "\<forall>p \<in> set ps. is_json_data p"
  show "stripResponseMetadata ps = map (\<lambda>p. remove_response_fields (null_rs_elements p)) ps"
    unfolding stripResponseMetadata_def
  proof (intro map_cong refl)
    fix q assume q: "q \<in> set ps"
    show "(if \<not> truthy q \<or> \<not> typeof_object q then q else reparse (replacer [] q))
        = remove_response_fields (null_rs_elements q)"
    proof (cases "\<not> truthy q \<or> \<not> typeof_object q")
      case True
      then show ?thesis
        by (cases q) auto
    next
      case False
      then have "replacer [] q = q"
        by (cases q) (auto simp: replacer_def is_response_key_def is_rs_string_def)
      then show ?thesis
        using False q json by (simp add: reparse_eq_spec)
    qed
  qed
qed

text \<open>
  The theorem at a tool part carrying a response identifier, a nested \<^verbatim>\<open>rs_\<close> string
  and an \<^verbatim>\<open>rs_\<close> string inside an array.
\<close>

theorem stripResponseMetadata_result_witness:
  "is_json_data (JObj [(''type'', JStr ''tool-webSearch''), (''responseId'', JStr ''abc''),
                     (''output'', JObj [(''id'', JStr ''rs_9''), (''n'', JNum 3),
                                        (''refs'', JArr [JStr ''rs_1'', JStr ''x''])])]) \<and>
   stripResponseMetadata
     [JObj [(''type'', JStr ''tool-webSearch''), (''responseId'', JStr ''abc''),
            (''output'', JObj [(''id'', JStr ''rs_9''), (''n'', JNum 3),
                               (''refs'', JArr [JStr ''rs_1'', JStr ''x''])])]]
   = [JObj [(''type'', JStr ''tool-webSearch''),
            (''output'', JObj [(''n'', JNum 3), (''refs'', JArr [JNull, JStr ''x''])])]]"
  using stripResponseMetadata_result
    [of "[JObj [(''type'', JStr ''tool-webSearch''), (''responseId'', JStr ''abc''),
                (''output'', JObj [(''id'', JStr ''rs_9''), (''n'', JNum 3),
                                   (''refs'', JArr [JStr ''rs_1'', JStr ''x''])])]]"]
  by (simp add: is_response_key_def is_rs_string_def startsWith_def)

text \<open>
  C8 as stated fails: a part none of whose objects holds a property of the kinds to be
  removed is changed all the same, its array element \<^verbatim>\<open>'rs_1'\<close> becoming \<^verbatim>\<open>null\<close>.
\<close>

theorem stripResponseMetadata_changes_other_field:
  "no_response_metadata (JObj [(''ids'', JArr [JStr ''rs_1''])]) \<and>
   is_json_data (JObj [(''ids'', JArr [JStr ''rs_1''])]) \<and>
   stripResponseMetadata [JObj [(''ids'', JArr [JStr ''rs_1''])]]
     = [JObj [(''ids'', JArr [JNull])]]"
  by (simp add: stripResponseMetadata_def replacer_def is_response_key_def is_rs_string_def
      startsWith_def enumerate_eq_zip show_nat.simps)

section \<open>Image data\<close>






section \<open>Properties of the retrieval endpoint\<close>




text \<open>
  C7. Whether \<^verbatim>\<open>db.createRagContext\<close> throws or not, the endpoint returns the same
  response, status and body (\<^verbatim>\<open>context_id\<close>, \<^verbatim>\<open>compressed_summary\<close>, \<^verbatim>\<open>sources\<close>, \<^verbatim>\<open>query\<close>,
  \<^verbatim>\<open>processingTimeMs\<close>, \<^verbatim>\<open>tokenCount\<close>), and makes the same external calls; when it throws,
  the stored contexts are unchanged.
\<close>

theorem storage_failure_swallowed:
  "fst (ecoRagPOST (env\<lparr>store_throws := Some e\<rparr>) db request)
     = fst (ecoRagPOST (env\<lparr>store_throws := None\<rparr>) db request) \<and>
   fst (snd (ecoRagPOST (env\<lparr>store_throws := Some e\<rparr>) db request))
     = fst (snd (ecoRagPOST (env\<lparr>store_throws := None\<rparr>) db request)) \<and>
   snd (snd (ecoRagPOST (env\<lparr>store_throws := Some e\<rparr>) db request)) = db"
  by (simp add: ecoRagPOST_def rag_search_def rag_failed_def new_context_id_def Let_def
      split: option.splits json.splits sum.splits prod.splits)


text \<open>
  The theorem on a query with a session id: the response is the successful one with and
  without the storage failure, and only without it is the context stored.
\<close>

theorem storage_failure_swallowed_witness:
  "fst (ecoRagPOST (rag_world\<lparr>store_throws := Some (Error ''connection refused'')\<rparr>) []
          (Some sea_level_request))
     = \<lparr>status = 200,
        body = Success
          \<lparr>context_id = ''ctx_1500_k3j9x2m1q'',
           compressed_summary = ''Sea level rise is met in three phases.'',
           sources = [source_of 0 sea_level_page],
           query = ''sea level rise'', processingTimeMs = 250, tokenCount = 12\<rparr>\<rparr> \<and>
   fst (ecoRagPOST (rag_world\<lparr>store_throws := None\<rparr>) [] (Some sea_level_request))
     = \<lparr>status = 200,
        body = Success
          \<lparr>context_id = ''ctx_1500_k3j9x2m1q'',
           compressed_summary = ''Sea level rise is met in three phases.'',
           sources = [source_of 0 sea_level_page],
           query = ''sea level rise'', processingTimeMs = 250, tokenCount = 12\<rparr>\<rparr> \<and>
   snd (snd (ecoRagPOST (rag_world\<lparr>store_throws := Some (Error ''connection refused'')\<rparr>) []
               (Some sea_level_request))) = [] \<and>
   map ctx_id (snd (snd (ecoRagPOST (rag_world\<lparr>store_throws := None\<rparr>) [] (Some sea_level_request))))
     = [''ctx_1500_k3j9x2m1q'']"
proof -
  have ok: "fst (ecoRagPOST (rag_world\<lparr>store_throws := None\<rparr>) [] (Some sea_level_request))
     = \<lparr>status = 200,
        body = Success
          \<lparr>context_id = ''ctx_1500_k3j9x2m1q'',
           compressed_summary = ''Sea level rise is met in three phases.'',
           sources = [source_of 0 sea_level_page],
           query = ''sea level rise'', processingTimeMs = 250, tokenCount = 12\<rparr>\<rparr>"
    and stored: "map ctx_id (snd (snd (ecoRagPOST (rag_world\<lparr>store_throws := None\<rparr>) []
                   (Some sea_level_request)))) = [''ctx_1500_k3j9x2m1q'']"
    by (simp_all add: ecoRagPOST_def rag_search_def rag_world_def new_context_id_def show_int_def
        show_nat.simps digit_char_values trim_def is_space_def Let_def sea_level_request_def
        enumerate_eq_zip createRagContext_def)
  show ?thesis
    using storage_failure_swallowed
      [where env = rag_world and e = "Error ''connection refused''" and db = "[]"
         and request = "Some sea_level_request"] ok stored
    by simp
qed

section \<open>Properties of \<^verbatim>\<open>olympiaRAGSearch\<close>\<close>

lemma rag_search_db:
  "snd (snd (rag_search env db qs topK sessionId)) = db \<or>
   (truthy sessionId \<and> (\<exists>row. snd (snd (rag_search env db qs topK sessionId)) = db @ [row]))"
  by (simp add: rag_search_def createRagContext_def Let_def
      split: sum.splits prod.splits option.splits)

lemma ecoRagPOST_db:
  "snd (snd (ecoRagPOST env db request)) = db \<or>
   (\<exists>b row. request = Some b \<and> truthy (get b ''sessionId'')
      \<and> snd (snd (ecoRagPOST env db request)) = db @ [row])"
proof (cases request)
  case None
  then show ?thesis by (simp add: ecoRagPOST_def)
next
  case (Some b)
  show ?thesis
  proof (cases "\<exists>qs. b \<noteq> JNull \<and> b \<noteq> JUndefined \<and> get b ''query'' = JStr qs \<and> qs \<noteq> [] \<and> trim qs \<noteq> []")
    case True
    then obtain qs where qs: "b \<noteq> JNull" "b \<noteq> JUndefined" "get b ''query'' = JStr qs" "qs \<noteq> []" "trim qs \<noteq> []"
      by blast
    then have "ecoRagPOST env db request
        = rag_search env db qs (if get b ''topK'' = JUndefined then JNum 5 else get b ''topK'') (get b ''sessionId'')"
      using Some by (simp add: ecoRagPOST_def Let_def)
    then show ?thesis
      using Some rag_search_db [of env db qs _ "get b ''sessionId''"] by auto
  next
    case False
    then have "snd (snd (ecoRagPOST env db request)) = db"
      using Some by (auto simp: ecoRagPOST_def Let_def split: json.splits)
    then show ?thesis by simp
  qed
qed

lemma fetch_and_format_db:
  "snd (snd (fetch_and_format env fetch_throws db sessionId q topK)) = db \<or>
   (\<exists>sid row. sessionId = Some sid \<and> sid \<noteq> []
      \<and> snd (snd (fetch_and_format env fetch_throws db sessionId q topK)) = db @ [row])"
proof (cases fetch_throws)
  case (Some e)
  then show ?thesis by (simp add: fetch_and_format_def)
next
  case None
  obtain response calls db' where post:
      "ecoRagPOST env db (Some (search_request q topK sessionId)) = (response, calls, db')"
    by (cases "ecoRagPOST env db (Some (search_request q topK sessionId))") auto
  then have out: "snd (snd (fetch_and_format env fetch_throws db sessionId q topK)) = db'"
    using None by (simp add: fetch_and_format_def Let_def split: rag_body.splits)
  from ecoRagPOST_db [of env db "Some (search_request q topK sessionId)"] post
  have "db' = db \<or> (truthy (get (search_request q topK sessionId) ''sessionId'') \<and> (\<exists>row. db' = db @ [row]))"
    by auto
  moreover have "\<exists>sid. sessionId = Some sid \<and> sid \<noteq> []"
    if "truthy (get (search_request q topK sessionId) ''sessionId'')"
    using that by (cases sessionId) (simp_all add: search_request_def)
  ultimately show ?thesis
    using out by auto
qed

lemma count_append_one:
  "countRagContextsForSession sid (db @ [row]) \<le> Suc (countRagContextsForSession sid db)"
  by (simp add: countRagContextsForSession_def)

lemma olympiaRAGSearch_keeps_limit:
  assumes "countRagContextsForSession sid db \<le> 4"
  shows "countRagContextsForSession sid (snd (snd (olympiaRAGSearch env fetch_throws db (Some sid) q topK))) \<le> 4"
proof (cases "sid \<noteq> [] \<and> countRagContextsForSession sid db \<ge> 4")
  case True
  then show ?thesis
    using assms by (simp add: olympiaRAGSearch_def MAX_RAG_CALLS_PER_SESSION_def Let_def)
next
  case False
  then have run: "olympiaRAGSearch env fetch_throws db (Some sid) q topK
      = fetch_and_format env fetch_throws db (Some sid) q topK"
    by (auto simp: olympiaRAGSearch_def MAX_RAG_CALLS_PER_SESSION_def Let_def)
  from fetch_and_format_db [of env fetch_throws db "Some sid" q topK]
  show ?thesis
  proof
    assume "snd (snd (fetch_and_format env fetch_throws db (Some sid) q topK)) = db"
    then show ?thesis
      using assms run by simp
  next
    assume "\<exists>sid' row. Some sid = Some sid' \<and> sid' \<noteq> []
        \<and> snd (snd (fetch_and_format env fetch_throws db (Some sid) q topK)) = db @ [row]"
    then obtain row where row: "sid \<noteq> []"
        "snd (snd (fetch_and_format env fetch_throws db (Some sid) q topK)) = db @ [row]"
      by auto
    then have "countRagContextsForSession sid db < 4"
      using False by simp
    then show ?thesis
      using count_append_one [of sid db row] run row(2) by simp
  qed
qed

lemma search_sequence_keeps_limit:
  "countRagContextsForSession sid db \<le> 4 \<Longrightarrow>
     countRagContextsForSession sid (search_sequence (Some sid) invocations db) \<le> 4"
proof (induction invocations arbitrary: db)
  case Nil
  then show ?case by simp
next
  case (Cons inv invocations)
  obtain env fetch_throws q topK where inv: "inv = (env, fetch_throws, q, topK)"
    by (cases inv) auto
  show ?case
    unfolding inv search_sequence.simps
    by (intro Cons.IH olympiaRAGSearch_keeps_limit Cons.prems)
qed

lemma olympiaRAGSearch_blocked:
  assumes "sid \<noteq> []" "4 \<le> countRagContextsForSession sid db"
  shows "olympiaRAGSearch env fetch_throws db (Some sid) q topK
     = (Text (limit_reached_message (listRagContextsForSession sid db)), [], db)"
  using assms by (simp add: olympiaRAGSearch_def MAX_RAG_CALLS_PER_SESSION_def Let_def)

lemma search_sequence_blocked:
  assumes "sid \<noteq> []" "4 \<le> countRagContextsForSession sid db"
  shows "search_sequence (Some sid) invocations db = db"
proof (induction invocations)
  case Nil
  show ?case by simp
next
  case (Cons inv invocations)
  obtain env fetch_throws q topK where inv: "inv = (env, fetch_throws, q, topK)"
    by (cases inv) auto
  show ?case
    unfolding inv search_sequence.simps olympiaRAGSearch_blocked [OF assms]
    using Cons.IH by simp
qed

lemma sublist_join: "x \<in> set xs \<Longrightarrow> sublist x (join sep xs)"
proof (induction sep xs rule: join.induct)
  case (1 sep)
  then show ?case by simp
next
  case (2 sep y)
  then show ?case by simp
next
  case (3 sep y z zs)
  show ?case
  proof (cases "x = y")
    case True
    then show ?thesis
      by (simp add: sublist_append_rightI)
  next
    case False
    then have "sublist x (join sep (z # zs))"
      using 3 by simp
    moreover have "sublist (join sep (z # zs)) ((y @ sep) @ join sep (z # zs))"
      by (rule sublist_append_leftI)
    ultimately have "sublist x ((y @ sep) @ join sep (z # zs))"
      by (rule sublist_order.order_trans)
    then show ?thesis by simp
  qed
qed

lemma sublist_middle: "sublist x (a @ x @ b)"
  by (metis sublist_appendI)

lemma context_id_in_entry: "sublist (ctx_id c) (readable_entry i c)"
proof -
  have "readable_entry i c
      = (show_nat (i + 1) @ ''. Query: '' @ [CHR 0x22] @ ctx_query c @ [CHR 0x22] @ newline
          @ ''   Context ID: '') @ ctx_id c
        @ (newline @ ''   Preview: '' @ substring0 (context_preview c) 200 @ ''...'')"
    by (simp add: readable_entry_def)
  then show ?thesis
    by (simp only: sublist_middle)
qed

lemma context_id_in_list:
  assumes "c \<in> set cs"
  shows "sublist (ctx_id c) (readableList cs)"
proof -
  from assms obtain i where "i < length cs" "cs ! i = c"
    by (auto simp: in_set_conv_nth)
  then have "(i, c) \<in> set (enumerate 0 cs)"
    by (simp add: in_set_enumerate_eq)
  then have "readable_entry i c \<in> set (map (\<lambda>(i, c). readable_entry i c) (enumerate 0 cs))"
    by force
  then have "sublist (readable_entry i c) (readableList cs)"
    unfolding readableList_def by (rule sublist_join)
  with context_id_in_entry [of c i] show ?thesis
    by (rule sublist_order.order_trans)
qed

lemma context_id_in_message:
  assumes "c \<in> set cs"
  shows "sublist (ctx_id c) (limit_reached_message cs)"
proof -
  obtain a b where "limit_reached_message cs = a @ readableList cs @ b"
    unfolding limit_reached_message_def by (metis append.assoc)
  then have "sublist (readableList cs) (limit_reached_message cs)"
    by (simp add: sublist_middle)
  with context_id_in_list [OF assms] show ?thesis
    by (rule sublist_order.order_trans)
qed

text \<open>
  C2. Along any sequence of invocations of \<^verbatim>\<open>olympiaRAGSearch\<close> for one session, run one
  after the other, a session that holds at most 4 stored contexts (a new session holds
  none) holds at most 4 afterwards. Once the session holds 4, an invocation makes no
  external call, leaves the stored contexts as they are and returns the limit-reached
  message, in which the id of every stored context of the session occurs; and so does
  every invocation after it.
\<close>

theorem rag_search_limit:
  "(countRagContextsForSession sid db \<le> 4 \<longrightarrow>
      countRagContextsForSession sid (search_sequence (Some sid) invocations db) \<le> 4) \<and>
   (sid \<noteq> [] \<and> 4 \<le> countRagContextsForSession sid db \<longrightarrow>
      olympiaRAGSearch env fetch_throws db (Some sid) q topK
        = (Text (limit_reached_message (listRagContextsForSession sid db)), [], db) \<and>
      (\<forall>c \<in> set (listRagContextsForSession sid db).
          sublist (ctx_id c) (limit_reached_message (listRagContextsForSession sid db))) \<and>
      search_sequence (Some sid) invocations db = db)"
  using search_sequence_keeps_limit olympiaRAGSearch_blocked search_sequence_blocked
    context_id_in_message
  by blast


text \<open>
  The theorem on a session with three stored contexts, where the first of three
  invocations stores a fourth and the others are blocked, and on a session with four.
\<close>

theorem rag_search_limit_witness:
  "countRagContextsForSession ''s1'' [stored_context ''ctx_1'', stored_context ''ctx_2'', stored_context ''ctx_3''] = 3 \<and>
   map ctx_id (search_sequence (Some ''s1'')
        [(rag_world, None, ''sea level rise'', 8), (rag_world, None, ''budget'', 8),
         (rag_world, None, ''housing'', 8)]
        [stored_context ''ctx_1'', stored_context ''ctx_2'', stored_context ''ctx_3''])
     = [''ctx_1'', ''ctx_2'', ''ctx_3'', ''ctx_1500_k3j9x2m1q''] \<and>
   ''s1'' \<noteq> [] \<and>
   countRagContextsForSession ''s1'' four_contexts = 4 \<and>
   olympiaRAGSearch rag_world None four_contexts (Some ''s1'') ''sea level rise'' 8
     = (Text (limit_reached_message four_contexts), [], four_contexts) \<and>
   listRagContextsForSession ''s1'' four_contexts = four_contexts \<and>
   sublist ''ctx_3'' (limit_reached_message four_contexts)"
proof -
  let ?three = "[stored_context ''ctx_1'', stored_context ''ctx_2'', stored_context ''ctx_3'']"
  let ?calls = "[(rag_world, None :: error option, ''sea level rise'', 8 :: int),
                 (rag_world, None, ''budget'', 8), (rag_world, None, ''housing'', 8)]"
  have three: "countRagContextsForSession ''s1'' ?three = 3"
    by (simp add: countRagContextsForSession_def stored_context_def)
  have four: "countRagContextsForSession ''s1'' four_contexts = 4"
    and list: "listRagContextsForSession ''s1'' four_contexts = four_contexts"
    by (simp_all add: countRagContextsForSession_def listRagContextsForSession_def
        four_contexts_def stored_context_def)
  have first: "map ctx_id (snd (snd (olympiaRAGSearch rag_world None ?three (Some ''s1'') ''sea level rise'' 8)))
      = [''ctx_1'', ''ctx_2'', ''ctx_3'', ''ctx_1500_k3j9x2m1q'']"
    and first_count: "countRagContextsForSession ''s1''
        (snd (snd (olympiaRAGSearch rag_world None ?three (Some ''s1'') ''sea level rise'' 8))) = 4"
    by (simp_all add: olympiaRAGSearch_def fetch_and_format_def MAX_RAG_CALLS_PER_SESSION_def
        countRagContextsForSession_def stored_context_def
        ecoRagPOST_def rag_search_def rag_world_def new_context_id_def show_int_def
        show_nat.simps digit_char_values trim_def is_space_def Let_def search_request_def
        enumerate_eq_zip createRagContext_def)
  note limit = rag_search_limit [where sid = "''s1''"]
  have rest: "search_sequence (Some ''s1'') [(rag_world, None, ''budget'', 8), (rag_world, None, ''housing'', 8)]
        (snd (snd (olympiaRAGSearch rag_world None ?three (Some ''s1'') ''sea level rise'' 8)))
      = snd (snd (olympiaRAGSearch rag_world None ?three (Some ''s1'') ''sea level rise'' 8))"
    using limit [where db = "snd (snd (olympiaRAGSearch rag_world None ?three (Some ''s1'') ''sea level rise'' 8))"
        and invocations = "[(rag_world, None, ''budget'', 8), (rag_world, None, ''housing'', 8)]"]
      first_count
    by simp
  have sequence: "map ctx_id (search_sequence (Some ''s1'') ?calls ?three)
      = [''ctx_1'', ''ctx_2'', ''ctx_3'', ''ctx_1500_k3j9x2m1q'']"
    using rest first by simp
  have blocked: "olympiaRAGSearch rag_world None four_contexts (Some ''s1'') ''sea level rise'' 8
      = (Text (limit_reached_message four_contexts), [], four_contexts)"
    and listed: "\<forall>c \<in> set four_contexts. sublist (ctx_id c) (limit_reached_message four_contexts)"
    using limit [where db = four_contexts and env = rag_world and fetch_throws = None
        and q = "''sea level rise''" and topK = 8] four list
    by simp_all
  have "stored_context ''ctx_3'' \<in> set four_contexts"
    by (simp add: four_contexts_def)
  with listed have "sublist (ctx_id (stored_context ''ctx_3'')) (limit_reached_message four_contexts)"
    by blast
  then have mentioned: "sublist ''ctx_3'' (limit_reached_message four_contexts)"
    by (simp add: stored_context_def)
  show ?thesis
    using three sequence four blocked list mentioned by simp
qed


end
